theory Spec2Isabelle
  imports Main
begin

section \<open>Values\<close>

text \<open>
  Errors that a handler forwards to \<open>next(error)\<close>: a \<open>TypeError\<close> raised by
  JavaScript itself (destructuring an undefined body), an \<open>Error\<close> thrown by the
  controller (\<open>JsError\<close>), and a rejection coming back from the identity or spreadsheet
  provider (\<open>ProviderError\<close>).
\<close>

datatype error = TypeError string | JsError string | ProviderError string

text \<open>
  Request-body fields read by the spreadsheet handlers are JSON scalars; an absent field
  reads as \<open>JUndefined\<close>. \<open>JNaN\<close> only arises from arithmetic. Numbers are
  integers here; arrays, objects and fractional numbers are outside the model.
\<close>

datatype jsval = JUndefined | JNull | JNaN | JBool bool | JNum int | JStr string


text \<open>\<open>v + 1\<close> as JavaScript evaluates it on a scalar \<open>v\<close>.\<close>

fun js_plus_one :: "jsval \<Rightarrow> jsval" where
  "js_plus_one JUndefined = JNaN"
| "js_plus_one JNull = JNum 1"
| "js_plus_one JNaN = JNaN"
| "js_plus_one (JBool b) = JNum (if b then 2 else 1)"
| "js_plus_one (JNum n) = JNum (n + 1)"
| "js_plus_one (JStr s) = JStr (s @ ''1'')"

text \<open>
  Token and profile fields are strings that may be missing (\<open>None\<close> is
  \<open>undefined\<close> or \<open>null\<close>); \<open>expiry_date\<close> is a number of milliseconds.
  \<open>if (x)\<close> on such a field is false for a missing value, the empty string and 0.
\<close>

definition truthy_str :: "string option \<Rightarrow> bool" where
  "truthy_str x = (case x of None \<Rightarrow> False | Some s \<Rightarrow> s \<noteq> [])"

definition truthy_num :: "int option \<Rightarrow> bool" where
  "truthy_num x = (case x of None \<Rightarrow> False | Some n \<Rightarrow> n \<noteq> 0)"

definition of_str :: "string option \<Rightarrow> jsval" where
  "of_str x = (case x of None \<Rightarrow> JUndefined | Some s \<Rightarrow> JStr s)"

definition of_num :: "int option \<Rightarrow> jsval" where
  "of_num x = (case x of None \<Rightarrow> JUndefined | Some n \<Rightarrow> JNum n)"

text \<open>\<open>res.json\<close> serialises an object literal; a property whose value is
  \<open>undefined\<close> is left out.\<close>

definition json_object :: "(string \<times> jsval) list \<Rightarrow> (string \<times> jsval) list" where
  "json_object kvs = filter (\<lambda>kv. snd kv \<noteq> JUndefined) kvs"

section \<open>The credential store\<close>

text \<open>The token set of the identity provider, also the shape of the credentials held
  by the shared \<open>oauth2Client\<close>.\<close>

record tokens =
  access_token :: "string option"
  refresh_token :: "string option"
  expiry_date :: "int option"

text \<open>The profile returned by \<open>oauth2.userinfo.get()\<close>.\<close>

record userinfo =
  data_id :: string
  data_email :: "string option"
  data_name :: "string option"
  data_picture :: "string option"

text \<open>
  Modelled from the spec: the \<open>User\<close> model (\<open>../models/User\<close>) is not part of the
  sources. A document has the fields the controller reads and writes; \<open>uid\<close> is its
  \<open>_id\<close>, \<open>tokenExpiry\<close> a date in milliseconds. The collection is the list of
  stored documents. A document obtained from a query is a copy: assigning to its fields
  changes the collection only when it is saved.
\<close>

record user =
  uid :: nat
  googleId :: string
  email :: "string option"
  name :: "string option"
  picture :: "string option"
  accessToken :: "string option"
  refreshToken :: "string option"
  tokenExpiry :: "int option"

text \<open>Modelled from the spec: \<open>User.findOne({googleId})\<close>, the first stored document
  with that external id.\<close>

definition findOne_googleId :: "user list \<Rightarrow> string \<Rightarrow> user option" where
  "findOne_googleId users g = find (\<lambda>u. googleId u = g) users"

text \<open>Modelled from the spec: \<open>User.findOne({refreshToken})\<close>, the first stored
  document whose refresh token is the given string.\<close>

definition findOne_refreshToken :: "user list \<Rightarrow> string \<Rightarrow> user option" where
  "findOne_refreshToken users r = find (\<lambda>u. refreshToken u = Some r) users"

text \<open>Modelled from the spec: \<open>User.findById\<close>.\<close>

definition findById :: "user list \<Rightarrow> nat \<Rightarrow> user option" where
  "findById users i = find (\<lambda>u. uid u = i) users"

text \<open>Modelled from the spec: the \<open>_id\<close> given to a document by \<open>new User\<close>, an
  identifier no stored document has.\<close>

definition new_id :: "user list \<Rightarrow> nat" where
  "new_id users = Suc (fold max (map uid users) 0)"

text \<open>Modelled from the spec: \<open>user.save()\<close> writes the document over the stored one
  with its \<open>_id\<close>, or inserts it when there is none.\<close>

definition save :: "user \<Rightarrow> user list \<Rightarrow> user list" where
  "save u users =
     (if uid u \<in> set (map uid users)
      then map (\<lambda>x. if uid x = uid u then u else x) users
      else users @ [u])"

section \<open>The providers and the server state\<close>

text \<open>Sheet metadata as \<open>spreadsheets.get\<close> returns it.\<close>

record sheet =
  properties_sheetId :: int
  properties_title :: string

record sort_range =
  range_sheetId :: jsval
  startRowIndex :: int
  startColumnIndex :: int
  endColumnIndex :: jsval
  dimensionIndex :: jsval
  sortOrder :: string

datatype request = DeleteSheet int | SortRange sort_range

text \<open>The argument of \<open>spreadsheets.batchUpdate\<close>: \<open>deleteSheet\<close> passes its
  requests under \<open>requestBody\<close>, \<open>sortSheetRange\<close> beside \<open>spreadsheetId\<close>.\<close>

record batch_params =
  spreadsheetId :: string
  requests :: "request list option"
  requestBody_requests :: "request list option"

text \<open>
  Every call the controller makes to the identity or spreadsheet provider, in the order
  made, with the credentials the shared client holds at that moment. What the client
  library does by itself inside one such call is not part of the sources.
\<close>

datatype call =
    GetToken "string option"
  | UserinfoGet tokens
  | RefreshAccessToken tokens
  | SpreadsheetsCreate tokens jsval
  | SpreadsheetsGet tokens string
  | SpreadsheetsBatchUpdate tokens batch_params

text \<open>
  The answers of the external collaborators are parameters of the model: each function
  gives, for the arguments of a call, a rejection or the data returned.
\<close>

record provider =
  getToken :: "string option \<Rightarrow> error + tokens"
  userinfo_get :: "tokens \<Rightarrow> error + userinfo"
  refreshAccessToken :: "tokens \<Rightarrow> error + tokens"
  spreadsheets_create :: "tokens \<Rightarrow> jsval \<Rightarrow> error + jsval"
  spreadsheets_get :: "tokens \<Rightarrow> string \<Rightarrow> error + sheet list"
  spreadsheets_batchUpdate :: "tokens \<Rightarrow> batch_params \<Rightarrow> error + unit"

text \<open>
  The state a handler runs in: the user collection, the credentials of the module-level
  \<open>oauth2Client\<close>, and the log of outbound calls.
\<close>

record state =
  db :: "user list"
  credentials :: tokens
  calls :: "call list"

definition log_call :: "call \<Rightarrow> state \<Rightarrow> state" where
  "log_call c st = st\<lparr>calls := calls st @ [c]\<rparr>"

text \<open>What a handler does with \<open>res\<close> or \<open>next\<close>: a redirect with the cookies set
  (name, value, httpOnly), a JSON body with its status, or \<open>next(error)\<close>.\<close>

datatype response =
    Redirect "(string \<times> string \<times> bool) list" string
  | Json nat "(string \<times> jsval) list"
  | Next error

section \<open>Authentication handlers\<close>

record callback_req =
  query_code :: "string option"

text \<open>\<open>tokens.expiry_date ? new Date(tokens.expiry_date) : null\<close>\<close>

definition expiry_of :: "tokens \<Rightarrow> int option" where
  "expiry_of t = (if truthy_num (expiry_date t) then expiry_date t else None)"

text \<open>The two branches of \<open>googleCallback\<close> after the lookup: a new document, or the
  found one with its token fields assigned.\<close>

definition new_user :: "user list \<Rightarrow> userinfo \<Rightarrow> tokens \<Rightarrow> user" where
  "new_user users d t =
     \<lparr>uid = new_id users,
      googleId = data_id d,
      email = data_email d,
      name = data_name d,
      picture = data_picture d,
      accessToken = access_token t,
      refreshToken = refresh_token t,
      tokenExpiry = expiry_of t\<rparr>"

definition update_user :: "user \<Rightarrow> tokens \<Rightarrow> user" where
  "update_user u t =
     (let u1 = u\<lparr>accessToken := access_token t\<rparr>;
          u2 = (if truthy_str (refresh_token t)
                then u1\<lparr>refreshToken := refresh_token t\<rparr> else u1)
      in u2\<lparr>tokenExpiry := expiry_of t\<rparr>)"

text \<open>
  \<open>exports.googleCallback\<close>. \<open>generateToken\<close> (\<open>../utils/jwt\<close>) is not part of the
  sources and is a parameter: it signs the payload \<open>{id, email}\<close>.
\<close>

definition googleCallback ::
  "provider \<Rightarrow> (nat \<Rightarrow> string option \<Rightarrow> string) \<Rightarrow> callback_req \<Rightarrow> state
     \<Rightarrow> response \<times> state" where
  "googleCallback P generateToken req st =
     (let code = query_code req;
          st1 = log_call (GetToken code) st
      in case getToken P code of
           Inl e \<Rightarrow> (Next e, st1)
         | Inr t \<Rightarrow>
             let st2 = st1\<lparr>credentials := t\<rparr>;
                 st3 = log_call (UserinfoGet (credentials st2)) st2
             in (case userinfo_get P (credentials st2) of
                   Inl e \<Rightarrow> (Next e, st3)
                 | Inr d \<Rightarrow>
                     let user =
                           (case findOne_googleId (db st3) (data_id d) of
                              None \<Rightarrow> new_user (db st3) d t
                            | Some u \<Rightarrow> update_user u t);
                         st4 = st3\<lparr>db := save user (db st3)\<rparr>;
                         jwtToken = generateToken (uid user) (email user)
                     in (Redirect [(''token'', jwtToken, True)] ''/auth/profile'', st4)))"

record refresh_body =
  body_refreshToken :: "string option"

record refresh_req =
  req_body :: "refresh_body option"

text \<open>
  Lines 73 to 76 of \<open>exports.refreshToken\<close>: the document found by the refresh token,
  if any, gets the new access token and expiry assigned. It is the handler's local
  variable \<open>user\<close>.
\<close>

definition refreshed_document :: "user option \<Rightarrow> tokens \<Rightarrow> user option" where
  "refreshed_document found c =
     (case found of
        None \<Rightarrow> None
      | Some u \<Rightarrow> Some (u\<lparr>accessToken := access_token c, tokenExpiry := expiry_date c\<rparr>))"

text \<open>
  \<open>exports.refreshToken\<close>. The handler assigns to the found document and answers; it
  never calls \<open>save\<close>, so the document \<open>user\<close> is dropped when the handler returns.
  The key of the 400 body is \<open>'message '\<close>, with the trailing blank of the source.
\<close>

definition refreshToken_handler ::
  "provider \<Rightarrow> refresh_req \<Rightarrow> state \<Rightarrow> response \<times> state" where
  "refreshToken_handler P req st =
     (case req_body req of
        None \<Rightarrow> (Next (TypeError ''Cannot destructure property of undefined''), st)
      | Some b \<Rightarrow>
          if \<not> truthy_str (body_refreshToken b)
          then (Json 400 (json_object [(''message '', JStr ''Refresh token missing.'')]), st)
          else
            let st1 = st\<lparr>credentials :=
                        \<lparr>access_token = None, refresh_token = body_refreshToken b,
                         expiry_date = None\<rparr>\<rparr>;
                st2 = log_call (RefreshAccessToken (credentials st1)) st1
            in (case refreshAccessToken P (credentials st1) of
                  Inl e \<Rightarrow> (Next e, st2)
                | Inr c \<Rightarrow>
                    let user = refreshed_document
                                 (case body_refreshToken b of
                                    None \<Rightarrow> None
                                  | Some r \<Rightarrow> findOne_refreshToken (db st2) r) c
                    in (Json 200 (json_object
                          [(''accessToken'', of_str (access_token c)),
                           (''expiryDate'', of_num (expiry_date c))]), st2)))"

section \<open>Spreadsheet handlers\<close>

text \<open>
  A request to a spreadsheet route: \<open>req.user.id\<close> as the session middleware decoded
  it, \<open>req.params.sheetId\<close>, and the parsed body, a dictionary of fields (\<open>None\<close>
  when \<open>req.body\<close> is undefined).
\<close>

record sheets_req =
  user_id :: nat
  params_sheetId :: string
  sheets_body :: "(string \<rightharpoonup> jsval) option"

definition field :: "(string \<rightharpoonup> jsval) \<Rightarrow> string \<Rightarrow> jsval" where
  "field b k = (case b k of None \<Rightarrow> JUndefined | Some v \<Rightarrow> v)"

text \<open>\<open>setUserCredentials\<close>: the helper every spreadsheet handler awaits first.\<close>

definition setUserCredentials :: "state \<Rightarrow> nat \<Rightarrow> error + (user \<times> state)" where
  "setUserCredentials st userId =
     (case findById (db st) userId of
        None \<Rightarrow> Inl (JsError ''User not found'')
      | Some user \<Rightarrow>
          Inr (user, st\<lparr>credentials :=
                 \<lparr>access_token = accessToken user, refresh_token = refreshToken user,
                  expiry_date = None\<rparr>\<rparr>))"


text \<open>
  \<open>deleteSheet\<close>. On the path that deletes, \<open>sheetName\<close> is the string that
  \<open>find\<close> compared equal (\<open>===\<close>) to the title of the sheet found, which the
  message interpolates.
\<close>

definition deleteSheet ::
  "provider \<Rightarrow> sheets_req \<Rightarrow> state \<Rightarrow> response \<times> state" where
  "deleteSheet P req st =
     (case setUserCredentials st (user_id req) of
        Inl e \<Rightarrow> (Next e, st)
      | Inr (user, st1) \<Rightarrow>
          (case sheets_body req of
             None \<Rightarrow> (Next (TypeError ''Cannot destructure property of undefined''), st1)
           | Some b \<Rightarrow>
               let sheetId = params_sheetId req;
                   sheetName = field b ''sheetName'';
                   st2 = log_call (SpreadsheetsGet (credentials st1) sheetId) st1
               in (case spreadsheets_get P (credentials st1) sheetId of
                     Inl e \<Rightarrow> (Next e, st2)
                   | Inr sheets \<Rightarrow>
                       (case find (\<lambda>s. JStr (properties_title s) = sheetName) sheets of
                          None \<Rightarrow>
                            (Json 404 (json_object [(''message'', JStr ''Sheet not found'')]),
                             st2)
                        | Some sheet \<Rightarrow>
                            let params =
                                  \<lparr>spreadsheetId = sheetId, requests = None,
                                   requestBody_requests =
                                     Some [DeleteSheet (properties_sheetId sheet)]\<rparr>;
                                st3 = log_call
                                        (SpreadsheetsBatchUpdate (credentials st2) params) st2
                            in (case spreadsheets_batchUpdate P (credentials st2) params of
                                  Inl e \<Rightarrow> (Next e, st3)
                                | Inr _ \<Rightarrow>
                                    (Json 200 (json_object
                                       [(''message'',
                                         JStr (''Sheet '' @ properties_title sheet
                                               @ '' deleted successfully.''))]),
                                     st3))))))"

text \<open>\<open>sortSheetRange\<close>\<close>

definition sortSheetRange ::
  "provider \<Rightarrow> sheets_req \<Rightarrow> state \<Rightarrow> response \<times> state" where
  "sortSheetRange P req st =
     (case setUserCredentials st (user_id req) of
        Inl e \<Rightarrow> (Next e, st)
      | Inr (user, st1) \<Rightarrow>
          (case sheets_body req of
             None \<Rightarrow> (Next (TypeError ''Cannot destructure property of undefined''), st1)
           | Some b \<Rightarrow>
               let sheetId = params_sheetId req;
                   sheetName = field b ''sheetName'';
                   sortColumnIndex = field b ''sortColumnIndex'';
                   order = field b ''order'';
                   sortOrder' = (if order = JStr ''DESCENDING'' then ''DESCENDING''
                                 else ''ASCENDING'');
                   request =
                     \<lparr>spreadsheetId = sheetId,
                      requests = Some [SortRange
                        \<lparr>range_sheetId = sheetName,
                         startRowIndex = 1,
                         startColumnIndex = 0,
                         endColumnIndex = js_plus_one sortColumnIndex,
                         dimensionIndex = sortColumnIndex,
                         sortOrder = sortOrder'\<rparr>],
                      requestBody_requests = None\<rparr>;
                   st2 = log_call (SpreadsheetsBatchUpdate (credentials st1) request) st1
               in (case spreadsheets_batchUpdate P (credentials st1) request of
                     Inl e \<Rightarrow> (Next e, st2)
                   | Inr _ \<Rightarrow>
                       (Json 200 (json_object
                          [(''success'', JBool True),
                           (''message'', JStr ''Sheet sorted successfully'')]),
                        st2))))"

section \<open>Vocabulary of the properties\<close>







section \<open>Example inputs\<close>

text \<open>
  The scenario of the specification: a user \<open>g1\<close> who logged in once with tokens
  \<open>A1\<close>, \<open>R1\<close> and expiry 1000, a provider that answers a second login with
  \<open>A2\<close>, no refresh token and expiry 2000 (and a changed profile), and a provider that
  rejects everything.
\<close>

definition alice :: user where
  "alice = \<lparr>uid = 1, googleId = ''g1'', email = Some ''a@x.com'', name = Some ''Alice'',
            picture = None, accessToken = Some ''A1'', refreshToken = Some ''R1'',
            tokenExpiry = Some 1000\<rparr>"

definition store1 :: state where
  "store1 = \<lparr>db = [alice],
             credentials = \<lparr>access_token = None, refresh_token = None, expiry_date = None\<rparr>,
             calls = []\<rparr>"

definition tokens2 :: tokens where
  "tokens2 = \<lparr>access_token = Some ''A2'', refresh_token = None, expiry_date = Some 2000\<rparr>"

definition profile2 :: userinfo where
  "profile2 = \<lparr>data_id = ''g1'', data_email = Some ''b@x.com'', data_name = Some ''Alice B'',
               data_picture = None\<rparr>"

definition accepting :: provider where
  "accepting =
     \<lparr>getToken = (\<lambda>code. Inr tokens2),
      userinfo_get = (\<lambda>c. Inr profile2),
      refreshAccessToken = (\<lambda>c. Inr tokens2),
      spreadsheets_create = (\<lambda>c t. Inr (JStr ''sheet-1'')),
      spreadsheets_get =
        (\<lambda>c s. Inr [\<lparr>properties_sheetId = 0, properties_title = ''Sheet1''\<rparr>]),
      spreadsheets_batchUpdate = (\<lambda>c p. Inr ())\<rparr>"

definition rejecting :: provider where
  "rejecting =
     \<lparr>getToken = (\<lambda>code. Inl (ProviderError ''invalid_grant'')),
      userinfo_get = (\<lambda>c. Inl (ProviderError ''invalid_grant'')),
      refreshAccessToken = (\<lambda>c. Inl (ProviderError ''invalid_grant'')),
      spreadsheets_create = (\<lambda>c t. Inl (ProviderError ''unauthorized'')),
      spreadsheets_get = (\<lambda>c s. Inl (ProviderError ''unauthorized'')),
      spreadsheets_batchUpdate = (\<lambda>c p. Inl (ProviderError ''unauthorized''))\<rparr>"

definition sign :: "nat \<Rightarrow> string option \<Rightarrow> string" where
  "sign i e = ''jwt''"

definition login_req :: callback_req where
  "login_req = \<lparr>query_code = Some ''code-2''\<rparr>"

definition refresh_req1 :: refresh_req where
  "refresh_req1 = \<lparr>req_body = Some \<lparr>body_refreshToken = Some ''R1''\<rparr>\<rparr>"

definition refresh_req_empty :: refresh_req where
  "refresh_req_empty = \<lparr>req_body = Some \<lparr>body_refreshToken = None\<rparr>\<rparr>"

definition refresh_req_nobody :: refresh_req where
  "refresh_req_nobody = \<lparr>req_body = None\<rparr>"

definition sheet_body1 :: "string \<rightharpoonup> jsval" where
  "sheet_body1 = [''title'' \<mapsto> JStr ''Budget'', ''sheetName'' \<mapsto> JStr ''Sheet9'',
                  ''sortColumnIndex'' \<mapsto> JNum 2, ''order'' \<mapsto> JStr ''descending'']"

definition sheet_req1 :: sheets_req where
  "sheet_req1 = \<lparr>user_id = 1, params_sheetId = ''sheet-1'', sheets_body = Some sheet_body1\<rparr>"

lemmas example_defs = alice_def store1_def tokens2_def profile2_def accepting_def
  rejecting_def sign_def login_req_def refresh_req1_def refresh_req_empty_def
  refresh_req_nobody_def sheet_body1_def sheet_req1_def

section \<open>Lookups and saves\<close>

lemma find_map_same:
  assumes "\<And>x. P (f x) = P x"
  shows "find P (map f xs) = map_option f (find P xs)"
  using assms by (induction xs) auto

lemma find_append_cases:
  "find P (xs @ ys) = (case find P xs of None \<Rightarrow> find P ys | Some x \<Rightarrow> Some x)"
  by (induction xs) auto

lemma find_Some_mem: "find P xs = Some x \<Longrightarrow> x \<in> set xs \<and> P x"
  by (induction xs) (auto split: if_splits)

lemma findById_save_old:
  "uid u \<in> set (map uid users) \<Longrightarrow>
   findById (save u users) i =
     map_option (\<lambda>x. if uid x = uid u then u else x) (findById users i)"
  unfolding findById_def save_def
  by (simp add: find_map_same)

lemma findById_save_new:
  "uid u \<notin> set (map uid users) \<Longrightarrow> findById users i = Some x \<Longrightarrow>
   findById (save u users) i = Some x"
  by (simp add: findById_def save_def find_append_cases)

text \<open>The identifier of a new document is larger than every stored one.\<close>

lemma new_id_fresh: "new_id users \<notin> set (map uid users)"
proof -
  have "\<And>m. \<forall>x \<in> set users. uid x \<le> fold max (map uid users) m"
  proof (induction users)
    case Nil
    show ?case by simp
  next
    case (Cons a users)
    have "\<And>k. k \<le> fold max (map uid users) k"
      by (induction users) (auto intro: order_trans [OF max.cobounded2])
    then have "uid a \<le> fold max (map uid users) (max (uid a) m)"
      using order_trans [OF max.cobounded1] by blast
    with Cons show ?case by simp
  qed
  then have "\<forall>x \<in> set users. uid x < new_id users"
    by (auto simp: new_id_def less_Suc_eq_le)
  then show ?thesis by auto
qed

lemma uid_update_user [simp]: "uid (update_user u t) = uid u"
  by (simp add: update_user_def Let_def)

lemma googleId_update_user [simp]: "googleId (update_user u t) = googleId u"
  by (simp add: update_user_def Let_def)

lemma findOne_googleId_save_found:
  assumes "findOne_googleId users g = Some u"
  shows "findOne_googleId (save (update_user u t) users) g = Some (update_user u t)"
proof -
  from assms have mem: "u \<in> set users" and g: "googleId u = g"
    using find_Some_mem [of "\<lambda>u. googleId u = g" users u]
    by (simp_all add: findOne_googleId_def)
  have "find (\<lambda>x. googleId x = g)
          (map (\<lambda>x. if uid x = uid u then update_user u t else x) users)
        = Some (update_user u t)"
    using assms unfolding findOne_googleId_def
    by (induction users) (auto simp: g split: if_splits)
  with mem show ?thesis
    by (simp add: save_def findOne_googleId_def)
qed

lemma same_uid_same_document:
  assumes "distinct (map uid users)" and "u \<in> set users" and "x \<in> set users"
    and "uid x = uid u"
  shows "x = u"
  using assms by (auto simp: distinct_map dest: inj_onD)

lemma save_update_columns:
  assumes "distinct (map uid users)" and "u \<in> set users"
  shows "map uid (save (update_user u t) users) = map uid users"
    and "map googleId (save (update_user u t) users) = map googleId users"
    and "length (save (update_user u t) users) = length users"
proof -
  have in_ids: "uid u \<in> set (map uid users)" using assms(2) by auto
  have s: "save (update_user u t) users =
             map (\<lambda>x. if uid x = uid u then update_user u t else x) users"
    using in_ids by (simp add: save_def)
  show "map uid (save (update_user u t) users) = map uid users"
    unfolding s by (simp add: map_idI)
  show "length (save (update_user u t) users) = length users"
    unfolding s by simp
  have "\<And>x. x \<in> set users \<Longrightarrow>
          googleId (if uid x = uid u then update_user u t else x) = googleId x"
    using same_uid_same_document [OF assms] by auto
  then show "map googleId (save (update_user u t) users) = map googleId users"
    unfolding s by (simp add: map_idI)
qed

section \<open>The paths of the authentication handlers\<close>

lemma googleCallback_getToken_fails:
  assumes "getToken P (query_code req) = Inl e"
  shows "googleCallback P gen req st = (Next e, log_call (GetToken (query_code req)) st)"
  using assms by (simp add: googleCallback_def Let_def)

lemma googleCallback_userinfo_fails:
  assumes "getToken P (query_code req) = Inr t" and "userinfo_get P t = Inl e"
  shows "db (snd (googleCallback P gen req st)) = db st"
  using assms by (simp add: googleCallback_def Let_def log_call_def)

lemma googleCallback_found:
  assumes "getToken P (query_code req) = Inr t"
    and "userinfo_get P t = Inr d"
    and "findOne_googleId (db st) (data_id d) = Some u"
  shows "db (snd (googleCallback P gen req st)) = save (update_user u t) (db st)"
  using assms by (simp add: googleCallback_def Let_def log_call_def)

lemma googleCallback_new:
  assumes "getToken P (query_code req) = Inr t"
    and "userinfo_get P t = Inr d"
    and "findOne_googleId (db st) (data_id d) = None"
  shows "db (snd (googleCallback P gen req st)) = save (new_user (db st) d t) (db st)"
  using assms by (simp add: googleCallback_def Let_def log_call_def)

lemma refreshToken_handler_db: "db (snd (refreshToken_handler P req st)) = db st"
  by (simp add: refreshToken_handler_def Let_def log_call_def
      split: option.splits sum.splits)

lemma googleCallback_together:
  assumes "findById (db st) i = Some x"
  shows "\<exists>x'. findById (db (snd (googleCallback P gen req st))) i = Some x'
           \<and> (x' = x \<or> (\<exists>t. getToken P (query_code req) = Inr t
                  \<and> accessToken x' = access_token t \<and> tokenExpiry x' = expiry_of t))"
proof (cases "getToken P (query_code req)")
  case (Inl e)
  then show ?thesis
    using assms by (simp add: googleCallback_getToken_fails log_call_def)
next
  case t: (Inr t)
  show ?thesis
  proof (cases "userinfo_get P t")
    case (Inl e)
    then show ?thesis
      using assms googleCallback_userinfo_fails [OF t Inl] by simp
  next
    case d: (Inr d)
    show ?thesis
    proof (cases "findOne_googleId (db st) (data_id d)")
      case None
      have "uid (new_user (db st) d t) \<notin> set (map uid (db st))"
        using new_id_fresh [of "db st"] by (simp add: new_user_def)
      from findById_save_new [OF this assms] googleCallback_new [OF t d None]
      show ?thesis by simp
    next
      case (Some u)
      have "u \<in> set (db st)"
        using Some find_Some_mem [of "\<lambda>x. googleId x = data_id d" "db st" u]
        by (simp add: findOne_googleId_def)
      then have "uid (update_user u t) \<in> set (map uid (db st))" by auto
      from findById_save_old [OF this, of i] assms t googleCallback_found [OF t d Some]
      show ?thesis
        by (auto simp: update_user_def Let_def)
    qed
  qed
qed

section \<open>The paths of the spreadsheet handlers\<close>





section \<open>Credentials supplied to the spreadsheet API (C1)\<close>




section \<open>Repeat logins (C2, C3)\<close>

text \<open>
  C2: when a credential with a non-null refresh token is stored for an external id and
  a later \<open>googleCallback\<close> for that id gets a token set without a refresh token, the
  stored refresh token is the one it was.
\<close>

theorem googleCallback_keeps_refreshToken:
  assumes "findOne_googleId (db st) (data_id d) = Some u"
    and "refreshToken u = Some r"
    and "getToken P (query_code req) = Inr t"
    and "refresh_token t = None"
    and "userinfo_get P t = Inr d"
  shows "\<exists>u'. findOne_googleId (db (snd (googleCallback P gen req st))) (data_id d) = Some u'
           \<and> uid u' = uid u \<and> refreshToken u' = Some r"
proof -
  have "refreshToken (update_user u t) = Some r"
    using assms(2,4) by (simp add: update_user_def Let_def truthy_str_def)
  then show ?thesis
    using googleCallback_found [OF assms(3,5,1)] findOne_googleId_save_found [OF assms(1)]
    by simp
qed

theorem googleCallback_keeps_refreshToken_witness:
  "\<exists>u'. findOne_googleId (db (snd (googleCallback accepting sign login_req store1))) ''g1''
           = Some u'
         \<and> uid u' = 1 \<and> refreshToken u' = Some ''R1''"
proof -
  have h1: "findOne_googleId (db store1) (data_id profile2) = Some alice"
    by (simp add: example_defs findOne_googleId_def)
  have h2: "refreshToken alice = Some ''R1''"
    by (simp add: alice_def)
  have h3: "getToken accepting (query_code login_req) = Inr tokens2"
    by (simp add: accepting_def)
  have h4: "refresh_token tokens2 = None"
    by (simp add: tokens2_def)
  have h5: "userinfo_get accepting tokens2 = Inr profile2"
    by (simp add: accepting_def)
  have [simp]: "data_id profile2 = ''g1''" "uid alice = 1"
    by (simp_all add: example_defs)
  show ?thesis
    using googleCallback_keeps_refreshToken [OF h1 h2 h3 h4 h5, of sign] by simp
qed

text \<open>
  C3, as stated: a second successful \<open>googleCallback\<close> for a known external id
  updates the token and profile fields of the record. It fails on the code for the
  profile fields: the provider now reports the e-mail \<open>b@x.com\<close> and the name
  \<open>Alice B\<close>, and the stored record keeps \<open>a@x.com\<close> and \<open>Alice\<close>.
\<close>

theorem repeat_login_keeps_old_profile:
  "findOne_googleId (db store1) ''g1'' = Some alice
   \<and> getToken accepting (query_code login_req) = Inr tokens2
   \<and> userinfo_get accepting tokens2 = Inr profile2
   \<and> data_id profile2 = ''g1''
   \<and> data_email profile2 = Some ''b@x.com''
   \<and> data_name profile2 = Some ''Alice B''
   \<and> fst (googleCallback accepting sign login_req store1) =
       Redirect [(''token'', ''jwt'', True)] ''/auth/profile''
   \<and> db (snd (googleCallback accepting sign login_req store1)) =
       [\<lparr>uid = 1, googleId = ''g1'', email = Some ''a@x.com'', name = Some ''Alice'',
         picture = None, accessToken = Some ''A2'', refreshToken = Some ''R1'',
         tokenExpiry = Some 2000\<rparr>]
   \<and> map email (db (snd (googleCallback accepting sign login_req store1))) \<noteq>
       [data_email profile2]"
  by (simp add: example_defs findOne_googleId_def googleCallback_def Let_def log_call_def
      update_user_def truthy_str_def truthy_num_def expiry_of_def save_def)

text \<open>
  C3, amended: for an external id that has a stored credential (in a store whose
  documents have distinct \<open>_id\<close>s), a second successful \<open>googleCallback\<close> with that
  id assigns the record's \<open>accessToken\<close> and \<open>tokenExpiry\<close> from the new token set,
  and its \<open>refreshToken\<close> when the provider sent one; the profile fields \<open>email\<close>,
  \<open>name\<close> and \<open>picture\<close> stay as stored. No record is created: the stored
  \<open>_id\<close>s and external ids are the same lists as before, so an external id that
  identified one record still identifies one.
\<close>

theorem googleCallback_updates_existing_record:
  assumes "findOne_googleId (db st) (data_id d) = Some u"
    and "distinct (map uid (db st))"
    and "getToken P (query_code req) = Inr t"
    and "userinfo_get P t = Inr d"
  shows "\<exists>u'. findOne_googleId (db (snd (googleCallback P gen req st))) (data_id d) = Some u'
           \<and> accessToken u' = access_token t
           \<and> tokenExpiry u' = expiry_of t
           \<and> refreshToken u' =
               (if truthy_str (refresh_token t) then refresh_token t else refreshToken u)
           \<and> uid u' = uid u \<and> googleId u' = googleId u
           \<and> email u' = email u \<and> name u' = name u \<and> picture u' = picture u
           \<and> map uid (db (snd (googleCallback P gen req st))) = map uid (db st)
           \<and> map googleId (db (snd (googleCallback P gen req st))) = map googleId (db st)
           \<and> length (db (snd (googleCallback P gen req st))) = length (db st)"
proof -
  have mem: "u \<in> set (db st)"
    using assms(1) find_Some_mem [of "\<lambda>x. googleId x = data_id d" "db st" u]
    by (simp add: findOne_googleId_def)
  have fields: "accessToken (update_user u t) = access_token t"
    "tokenExpiry (update_user u t) = expiry_of t"
    "refreshToken (update_user u t) =
       (if truthy_str (refresh_token t) then refresh_token t else refreshToken u)"
    "email (update_user u t) = email u" "name (update_user u t) = name u"
    "picture (update_user u t) = picture u"
    by (simp_all add: update_user_def Let_def)
  show ?thesis
    using googleCallback_found [OF assms(3,4,1)] findOne_googleId_save_found [OF assms(1)]
      save_update_columns [OF assms(2) mem] fields
    by simp
qed

theorem googleCallback_updates_existing_record_witness:
  "\<exists>u'. findOne_googleId (db (snd (googleCallback accepting sign login_req store1))) ''g1''
           = Some u'
         \<and> accessToken u' = Some ''A2'' \<and> tokenExpiry u' = Some 2000
         \<and> refreshToken u' = Some ''R1''
         \<and> email u' = Some ''a@x.com'' \<and> name u' = Some ''Alice''
         \<and> length (db (snd (googleCallback accepting sign login_req store1))) = 1"
proof -
  have h1: "findOne_googleId (db store1) (data_id profile2) = Some alice"
    by (simp add: example_defs findOne_googleId_def)
  have h2: "distinct (map uid (db store1))"
    by (simp add: store1_def)
  have h3: "getToken accepting (query_code login_req) = Inr tokens2"
    by (simp add: accepting_def)
  have h4: "userinfo_get accepting tokens2 = Inr profile2"
    by (simp add: accepting_def)
  have [simp]: "data_id profile2 = ''g1''" "access_token tokens2 = Some ''A2''"
    "expiry_of tokens2 = Some 2000" "refresh_token tokens2 = None"
    "refreshToken alice = Some ''R1''" "email alice = Some ''a@x.com''"
    "name alice = Some ''Alice''" "length (db store1) = 1"
    by (simp_all add: example_defs expiry_of_def truthy_num_def)
  show ?thesis
    using googleCallback_updates_existing_record [OF h1 h2 h3 h4, of sign]
    by (auto simp: truthy_str_def)
qed

section \<open>Token refresh (C4, C5, C6, C8)\<close>

text \<open>
  C4: a refresh whose token matches a stored credential and which the provider accepts
  should leave the new access token and expiry in the stored record. On the code it does
  not. With \<open>R1\<close> stored for \<open>alice\<close> and a provider answering \<open>A2\<close> and 2000,
  the handler finds \<open>alice\<close>, assigns both values to the document it holds, answers
  200 with them, and the collection still has \<open>A1\<close> and 1000: nothing was saved.
\<close>

theorem refresh_does_not_persist:
  "findOne_refreshToken (db store1) ''R1'' = Some alice
   \<and> refreshAccessToken accepting
        \<lparr>access_token = None, refresh_token = Some ''R1'', expiry_date = None\<rparr> = Inr tokens2
   \<and> refreshed_document (findOne_refreshToken (db store1) ''R1'') tokens2 =
        Some (alice\<lparr>accessToken := Some ''A2'', tokenExpiry := Some 2000\<rparr>)
   \<and> fst (refreshToken_handler accepting refresh_req1 store1) =
        Json 200 [(''accessToken'', JStr ''A2''), (''expiryDate'', JNum 2000)]
   \<and> db (snd (refreshToken_handler accepting refresh_req1 store1)) = [alice]
   \<and> map accessToken (db (snd (refreshToken_handler accepting refresh_req1 store1))) =
        [Some ''A1'']
   \<and> map tokenExpiry (db (snd (refreshToken_handler accepting refresh_req1 store1))) =
        [Some 1000]"
  by (simp add: example_defs findOne_refreshToken_def refreshed_document_def
      refreshToken_handler_def truthy_str_def Let_def log_call_def json_object_def
      of_str_def of_num_def)




text \<open>
  C6: when the provider rejects the refresh, the handler forwards the provider's error
  and the user collection is what it was.
\<close>

theorem rejected_refresh_leaves_store:
  assumes "req_body req = Some b" and "truthy_str (body_refreshToken b)"
    and "refreshAccessToken P
           \<lparr>access_token = None, refresh_token = body_refreshToken b,
            expiry_date = None\<rparr> = Inl e"
  shows "fst (refreshToken_handler P req st) = Next e
         \<and> db (snd (refreshToken_handler P req st)) = db st"
  using assms by (simp add: refreshToken_handler_def Let_def log_call_def)

theorem rejected_refresh_leaves_store_witness:
  "fst (refreshToken_handler rejecting refresh_req1 store1) =
     Next (ProviderError ''invalid_grant'')
   \<and> db (snd (refreshToken_handler rejecting refresh_req1 store1)) = [alice]"
proof -
  have h1: "req_body refresh_req1 = Some \<lparr>body_refreshToken = Some ''R1''\<rparr>"
    by (simp add: refresh_req1_def)
  have h2: "truthy_str (body_refreshToken \<lparr>body_refreshToken = Some ''R1''\<rparr>)"
    by (simp add: truthy_str_def)
  have h3: "refreshAccessToken rejecting
              \<lparr>access_token = None,
               refresh_token = body_refreshToken \<lparr>body_refreshToken = Some ''R1''\<rparr>,
               expiry_date = None\<rparr> = Inl (ProviderError ''invalid_grant'')"
    by (simp add: rejecting_def)
  have [simp]: "db store1 = [alice]"
    by (simp add: store1_def)
  show ?thesis
    using rejected_refresh_leaves_store [OF h1 h2 h3, of store1] by simp
qed

text \<open>
  C8: when the provider accepts the refresh, the answer is a 200 carrying the new access
  token and expiry date, whatever the store holds: the same answer is given in any two
  states, with or without a credential matching the refresh token.
\<close>

theorem accepted_refresh_returns_tokens:
  assumes "req_body req = Some b" and "truthy_str (body_refreshToken b)"
    and "refreshAccessToken P
           \<lparr>access_token = None, refresh_token = body_refreshToken b,
            expiry_date = None\<rparr> = Inr c"
  shows "fst (refreshToken_handler P req st) =
           Json 200 (json_object [(''accessToken'', of_str (access_token c)),
                                  (''expiryDate'', of_num (expiry_date c))])
         \<and> fst (refreshToken_handler P req st') = fst (refreshToken_handler P req st)"
  using assms by (simp add: refreshToken_handler_def Let_def log_call_def)

theorem accepted_refresh_returns_tokens_witness:
  "findOne_refreshToken (db (store1\<lparr>db := []\<rparr>)) ''R1'' = None
   \<and> fst (refreshToken_handler accepting refresh_req1 (store1\<lparr>db := []\<rparr>)) =
       Json 200 [(''accessToken'', JStr ''A2''), (''expiryDate'', JNum 2000)]
   \<and> fst (refreshToken_handler accepting refresh_req1 store1) =
       fst (refreshToken_handler accepting refresh_req1 (store1\<lparr>db := []\<rparr>))"
proof -
  have h1: "req_body refresh_req1 = Some \<lparr>body_refreshToken = Some ''R1''\<rparr>"
    by (simp add: refresh_req1_def)
  have h2: "truthy_str (body_refreshToken \<lparr>body_refreshToken = Some ''R1''\<rparr>)"
    by (simp add: truthy_str_def)
  have h3: "refreshAccessToken accepting
              \<lparr>access_token = None,
               refresh_token = body_refreshToken \<lparr>body_refreshToken = Some ''R1''\<rparr>,
               expiry_date = None\<rparr> = Inr tokens2"
    by (simp add: accepting_def)
  have none: "findOne_refreshToken (db (store1\<lparr>db := []\<rparr>)) ''R1'' = None"
    by (simp add: findOne_refreshToken_def)
  have body: "json_object [(''accessToken'', of_str (access_token tokens2)),
                           (''expiryDate'', of_num (expiry_date tokens2))] =
              [(''accessToken'', JStr ''A2''), (''expiryDate'', JNum 2000)]"
    by (simp add: json_object_def of_str_def of_num_def tokens2_def)
  show ?thesis
    using accepted_refresh_returns_tokens [OF h1 h2 h3, of "store1\<lparr>db := []\<rparr>" store1]
      none body
    by simp
qed

section \<open>Access token and expiry change together (C7)\<close>

text \<open>
  C7: \<open>googleCallback\<close> leaves every stored document either as it was or with both
  \<open>accessToken\<close> and \<open>tokenExpiry\<close> taken from the provider's token set (the expiry
  being null when the token set has none); the refresh handler leaves the collection as
  it was, and the document it holds gets both fields assigned from the provider's
  credentials.
\<close>

theorem accessToken_and_tokenExpiry_change_together:
  "(findById (db st) i = Some x \<longrightarrow>
      (\<exists>x'. findById (db (snd (googleCallback P gen creq st))) i = Some x'
         \<and> (x' = x \<or> (\<exists>t. getToken P (query_code creq) = Inr t
                \<and> accessToken x' = access_token t \<and> tokenExpiry x' = expiry_of t))))
   \<and> db (snd (refreshToken_handler P rreq st)) = db st
   \<and> map_option accessToken (refreshed_document (Some u) c) = Some (access_token c)
   \<and> map_option tokenExpiry (refreshed_document (Some u) c) = Some (expiry_date c)"
  using googleCallback_together [of st i x P gen creq] refreshToken_handler_db [of P rreq st]
  by (simp add: refreshed_document_def)

theorem accessToken_and_tokenExpiry_change_together_witness:
  "findById (db store1) 1 = Some alice
   \<and> (\<exists>x'. findById (db (snd (googleCallback accepting sign login_req store1))) 1 = Some x'
         \<and> (x' = alice \<or> accessToken x' = Some ''A2'' \<and> tokenExpiry x' = Some 2000))
   \<and> db (snd (refreshToken_handler accepting refresh_req1 store1)) = [alice]"
proof -
  have found: "findById (db store1) 1 = Some alice"
    by (simp add: example_defs findById_def)
  have t: "getToken accepting (query_code login_req) = Inr tokens2"
    by (simp add: accepting_def)
  have [simp]: "access_token tokens2 = Some ''A2''" "expiry_of tokens2 = Some 2000"
    "accessToken alice = Some ''A1''" "db store1 = [alice]"
    by (simp_all add: example_defs expiry_of_def truthy_num_def)
  show ?thesis
    using accessToken_and_tokenExpiry_change_together
      [of store1 1 alice accepting sign login_req refresh_req1 alice tokens2] found t
    by auto
qed

section \<open>Spreadsheet handlers (C9, C10)\<close>

text \<open>
  C9: for every request, \<open>sortSheetRange\<close> either sends nothing (unknown user or no
  body) or sends one sort request; its \<open>sortOrder\<close> is \<open>DESCENDING\<close> when the
  \<open>order\<close> field is exactly that string and \<open>ASCENDING\<close> for every other value,
  an absent field included, so it is always one of the two.
\<close>

theorem sortSheetRange_normalises_order:
  "(\<forall>u b. findById (db st) (user_id req) = Some u \<longrightarrow> sheets_body req = Some b \<longrightarrow>
      (\<exists>r. calls (snd (sortSheetRange P req st)) = calls st @
           [SpreadsheetsBatchUpdate
              \<lparr>access_token = accessToken u, refresh_token = refreshToken u,
               expiry_date = None\<rparr>
              \<lparr>spreadsheetId = params_sheetId req, requests = Some [SortRange r],
               requestBody_requests = None\<rparr>]
         \<and> sortOrder r = (if field b ''order'' = JStr ''DESCENDING'' then ''DESCENDING''
                          else ''ASCENDING'')
         \<and> sortOrder r \<in> {''ASCENDING'', ''DESCENDING''}))
   \<and> (findById (db st) (user_id req) = None \<or> sheets_body req = None \<longrightarrow>
        calls (snd (sortSheetRange P req st)) = calls st)"
  by (auto simp: sortSheetRange_def setUserCredentials_def Let_def log_call_def
      split: sum.splits option.splits)

theorem sortSheetRange_normalises_order_witness:
  "field sheet_body1 ''order'' = JStr ''descending''
   \<and> (\<exists>r. calls (snd (sortSheetRange accepting sheet_req1 store1)) =
           [SpreadsheetsBatchUpdate
              \<lparr>access_token = Some ''A1'', refresh_token = Some ''R1'', expiry_date = None\<rparr>
              \<lparr>spreadsheetId = ''sheet-1'', requests = Some [SortRange r],
               requestBody_requests = None\<rparr>]
         \<and> sortOrder r = ''ASCENDING'')"
proof -
  have h1: "findById (db store1) (user_id sheet_req1) = Some alice"
    by (simp add: example_defs findById_def)
  have h2: "sheets_body sheet_req1 = Some sheet_body1"
    by (simp add: sheet_req1_def)
  have ord: "field sheet_body1 ''order'' = JStr ''descending''"
    by (simp add: sheet_body1_def field_def)
  have [simp]: "calls store1 = []" "accessToken alice = Some ''A1''"
    "refreshToken alice = Some ''R1''" "params_sheetId sheet_req1 = ''sheet-1''"
    by (simp_all add: example_defs)
  show ?thesis
    using sortSheetRange_normalises_order [of store1 sheet_req1 accepting] h1 h2 ord
    by auto
qed

text \<open>
  C10: for a request of a known user whose \<open>sheetName\<close> is the title of no sheet in
  the metadata the provider returned, \<open>deleteSheet\<close> answers 404 with the message
  \<open>Sheet not found\<close>, and the only outbound call it made is the metadata read: no
  delete request is sent.
\<close>

theorem deleteSheet_unknown_sheet_is_404:
  assumes "findById (db st) (user_id req) = Some u" and "sheets_body req = Some b"
    and "spreadsheets_get P
           \<lparr>access_token = accessToken u, refresh_token = refreshToken u,
            expiry_date = None\<rparr>
           (params_sheetId req) = Inr sheets"
    and "\<forall>s \<in> set sheets. JStr (properties_title s) \<noteq> field b ''sheetName''"
  shows "fst (deleteSheet P req st) = Json 404 [(''message'', JStr ''Sheet not found'')]
         \<and> calls (snd (deleteSheet P req st)) = calls st @
             [SpreadsheetsGet
                \<lparr>access_token = accessToken u, refresh_token = refreshToken u,
                 expiry_date = None\<rparr>
                (params_sheetId req)]"
proof -
  have "find (\<lambda>s. JStr (properties_title s) = field b ''sheetName'') sheets = None"
    using assms(4) by (simp add: find_None_iff)
  then show ?thesis
    using assms(1-3)
    by (simp add: deleteSheet_def setUserCredentials_def Let_def log_call_def
        json_object_def)
qed

theorem deleteSheet_unknown_sheet_is_404_witness:
  "fst (deleteSheet accepting sheet_req1 store1) =
     Json 404 [(''message'', JStr ''Sheet not found'')]
   \<and> calls (snd (deleteSheet accepting sheet_req1 store1)) =
       [SpreadsheetsGet
          \<lparr>access_token = Some ''A1'', refresh_token = Some ''R1'', expiry_date = None\<rparr>
          ''sheet-1'']"
proof -
  have h1: "findById (db store1) (user_id sheet_req1) = Some alice"
    by (simp add: example_defs findById_def)
  have h2: "sheets_body sheet_req1 = Some sheet_body1"
    by (simp add: sheet_req1_def)
  have h3: "spreadsheets_get accepting
              \<lparr>access_token = accessToken alice, refresh_token = refreshToken alice,
               expiry_date = None\<rparr>
              (params_sheetId sheet_req1) =
            Inr [\<lparr>properties_sheetId = 0, properties_title = ''Sheet1''\<rparr>]"
    by (simp add: accepting_def)
  have h4: "\<forall>s \<in> set [\<lparr>properties_sheetId = 0, properties_title = ''Sheet1''\<rparr>].
              JStr (properties_title s) \<noteq> field sheet_body1 ''sheetName''"
    by (simp add: sheet_body1_def field_def)
  have [simp]: "calls store1 = []" "accessToken alice = Some ''A1''"
    "refreshToken alice = Some ''R1''" "params_sheetId sheet_req1 = ''sheet-1''"
    by (simp_all add: example_defs)
  show ?thesis
    using deleteSheet_unknown_sheet_is_404 [OF h1 h2 h3 h4] by simp
qed

end
